theory Spec2Isabelle
  imports Main
begin

section \<open>Role-based authentication for the dashboard (auth.py)\<close>

text \<open>
  A shallow embedding of \<^verbatim>\<open>auth.py\<close>. Python strings are modelled as \<^typ>\<open>string\<close>;
  the few non-ASCII characters of the module's messages are written as their UTF-8 bytes.
  The table \<^verbatim>\<open>usuarios\<close> is a list of rows in the order in which the database scans
  them, so that \<^verbatim>\<open>fetchone\<close> is the head of the selected rows.
\<close>

subsection \<open>The role registry\<close>

record role_info =
  name :: string
  permissions :: "string list"

text \<open>The dictionary \<^verbatim>\<open>ROLES\<close>, in the order of its literal (Python dictionaries keep
  insertion order, which \<^verbatim>\<open>ROLES.keys()\<close> exposes).\<close>

definition ROLES :: "(string \<times> role_info) list" where
  "ROLES =
    [(''viewer'', \<lparr>name = ''Visualizador'', permissions = [''view'']\<rparr>),
     (''editor_v2'', \<lparr>name = ''Editor Simple'', permissions = [''view'', ''edit'']\<rparr>),
     (''editor'', \<lparr>name = ''Editor Full'', permissions = [''view'', ''edit'', ''delete'']\<rparr>),
     (''admin'', \<lparr>name = ''Administrador'',
        permissions = [''view'', ''edit'', ''delete'', ''manage_users'', ''view_audit'']\<rparr>)]"

text \<open>\<^verbatim>\<open>ROLES.keys()\<close> and \<^verbatim>\<open>role in ROLES\<close>.\<close>

definition ROLES_keys :: "string list" where
  "ROLES_keys = map fst ROLES"

definition in_ROLES :: "string \<Rightarrow> bool" where
  "in_ROLES r = (map_of ROLES r \<noteq> None)"

subsection \<open>The principal\<close>

text \<open>Class \<^verbatim>\<open>User\<close>: the four attributes set by \<^verbatim>\<open>__init__\<close>. The attribute
  \<^verbatim>\<open>id\<close> is named \<open>user_id\<close> here.\<close>

record user =
  user_id :: int
  username :: string
  email :: string
  role :: string

text \<open>\<^verbatim>\<open>permission in ROLES.get(self.role, {}).get('permissions', [])\<close>\<close>

definition has_permission :: "user \<Rightarrow> string \<Rightarrow> bool" where
  "has_permission self permission =
     (permission \<in> set (case map_of ROLES (role self) of
                          None \<Rightarrow> []
                        | Some info \<Rightarrow> permissions info))"

text \<open>\<^verbatim>\<open>ROLES.get(self.role, {}).get('name', 'Desconocido')\<close>\<close>

definition get_role_name :: "user \<Rightarrow> string" where
  "get_role_name self =
     (case map_of ROLES (role self) of
        None \<Rightarrow> ''Desconocido''
      | Some info \<Rightarrow> name info)"

text \<open>The permission list that \<^verbatim>\<open>has_permission\<close> consults for a role identifier:
  \<^verbatim>\<open>ROLES.get(r, {}).get('permissions', [])\<close>, read as a set.\<close>

definition role_permissions :: "string \<Rightarrow> string set" where
  "role_permissions r =
     set (case map_of ROLES r of None \<Rightarrow> [] | Some info \<Rightarrow> permissions info)"

subsection \<open>External collaborators\<close>

text \<open>
  \<^verbatim>\<open>werkzeug.security\<close> is not part of the module. Its two functions are parameters of
  the operations that call them: \<open>check_password_hash\<close> of type
  \<^typ>\<open>string \<Rightarrow> string \<Rightarrow> bool\<close> (stored hash, then password) and
  \<open>generate_password_hash\<close> of type \<^typ>\<open>string \<Rightarrow> string\<close> (the salt of the call
  being part of the function passed in). \<^verbatim>\<open>CURRENT_TIMESTAMP\<close> is a parameter
  \<open>now\<close>.
\<close>

datatype error = ValueError string | KeyError string

subsection \<open>The table \<^verbatim>\<open>usuarios\<close> and the connection\<close>

text \<open>One row of \<^verbatim>\<open>usuarios\<close>, with the columns the statements of the module name.\<close>

record usuario =
  row_id :: int
  row_username :: string
  row_email :: string
  password_hash :: string
  row_role :: string
  activo :: bool
  created_at :: nat
  last_login :: "nat option"

record database =
  usuarios :: "usuario list"
  usuarios_id_seq :: int

text \<open>A psycopg2 connection: statements act on the working copy, \<^verbatim>\<open>commit\<close> makes it
  durable, \<^verbatim>\<open>rollback\<close> discards it, and \<^verbatim>\<open>close\<close> leaves the committed state
  behind.\<close>

record connection =
  committed :: database
  working :: database

definition get_db_connection :: "database \<Rightarrow> connection" where
  "get_db_connection db = \<lparr>committed = db, working = db\<rparr>"

definition commit :: "connection \<Rightarrow> connection" where
  "commit conn = conn\<lparr>committed := working conn\<rparr>"

definition rollback :: "connection \<Rightarrow> connection" where
  "rollback conn = conn\<lparr>working := committed conn\<rparr>"

definition close :: "connection \<Rightarrow> database" where
  "close conn = committed conn"

text \<open>\<^verbatim>\<open>SELECT ... FROM usuarios WHERE cond\<close> and \<^verbatim>\<open>cur.fetchone()\<close>.\<close>

definition execute_select :: "(usuario \<Rightarrow> bool) \<Rightarrow> connection \<Rightarrow> usuario list" where
  "execute_select cond conn = filter cond (usuarios (working conn))"

definition fetchone :: "'a list \<Rightarrow> 'a option" where
  "fetchone rws = (case rws of [] \<Rightarrow> None | r # _ \<Rightarrow> Some r)"

text \<open>\<^verbatim>\<open>UPDATE usuarios SET ... WHERE cond\<close>: every selected row is rewritten in place.\<close>

definition execute_update ::
  "(usuario \<Rightarrow> bool) \<Rightarrow> (usuario \<Rightarrow> usuario) \<Rightarrow> connection \<Rightarrow> connection" where
  "execute_update cond upd conn =
     conn\<lparr>working := (working conn)
       \<lparr>usuarios := map (\<lambda>r. if cond r then upd r else r) (usuarios (working conn))\<rparr>\<rparr>"

text \<open>
  Modelled from the spec: the schema of \<^verbatim>\<open>usuarios\<close> is not in the source. The spec
  gives the table a unique, stable id and a uniqueness constraint over username and over
  email independently; the insert draws the id from the table's sequence, stamps
  \<open>created_at\<close>, leaves \<open>last_login\<close> empty and appends the row. A violated
  constraint is psycopg2's \<^verbatim>\<open>IntegrityError\<close>.
\<close>

datatype db_error = IntegrityError

definition execute_insert ::
  "string \<Rightarrow> string \<Rightarrow> string \<Rightarrow> string \<Rightarrow> nat \<Rightarrow> connection \<Rightarrow> db_error + (int \<times> connection)" where
  "execute_insert u e h r now conn =
     (let db = working conn; new_id = usuarios_id_seq db in
      if list_ex (\<lambda>rw. row_username rw = u \<or> row_email rw = e \<or> row_id rw = new_id) (usuarios db)
      then Inl IntegrityError
      else Inr (new_id,
        conn\<lparr>working := db
          \<lparr>usuarios := usuarios db @
             [\<lparr>row_id = new_id, row_username = u, row_email = e, password_hash = h,
               row_role = r, activo = True, created_at = now, last_login = None\<rparr>],
           usuarios_id_seq := new_id + 1\<rparr>\<rparr>))"

subsection \<open>Loading and authenticating\<close>

text \<open>\<^verbatim>\<open>User(user_data['id'], user_data['username'], user_data['email'], user_data['role'])\<close>\<close>

definition User :: "usuario \<Rightarrow> user" where
  "User user_data =
     \<lparr>user_id = row_id user_data, username = row_username user_data,
      email = row_email user_data, role = row_role user_data\<rparr>"

text \<open>Every operation takes the database and returns its result with the database it
  leaves behind.\<close>

definition load_user :: "int \<Rightarrow> database \<Rightarrow> user option \<times> database" where
  "load_user uid db =
     (let conn = get_db_connection db;
          user_data = fetchone (execute_select (\<lambda>r. row_id r = uid) conn);
          db' = close conn
      in (case user_data of
            Some d \<Rightarrow> Some (User d)
          | None \<Rightarrow> None, db'))"

definition authenticate_user ::
  "(string \<Rightarrow> string \<Rightarrow> bool) \<Rightarrow> string \<Rightarrow> string \<Rightarrow> database \<Rightarrow> user option \<times> database" where
  "authenticate_user check_password_hash username_or_email password db =
     (let conn = get_db_connection db;
          user_data = fetchone (execute_select
            (\<lambda>r. (row_username r = username_or_email \<or> row_email r = username_or_email)
                  \<and> activo r) conn);
          db' = close conn
      in (case user_data of
            Some d \<Rightarrow>
              if check_password_hash (password_hash d) password then Some (User d) else None
          | None \<Rightarrow> None, db'))"

text \<open>The active records whose username or email equals an identifier, in scan order:
  the rows the statement of \<^verbatim>\<open>authenticate_user\<close> selects.\<close>

definition active_matches :: "string \<Rightarrow> database \<Rightarrow> usuario list" where
  "active_matches ident db =
     filter (\<lambda>r. (row_username r = ident \<or> row_email r = ident) \<and> activo r) (usuarios db)"

subsection \<open>Managing users\<close>

text \<open>
  Of the management operations the development needs \<^verbatim>\<open>create_user\<close>,
  \<^verbatim>\<open>toggle_user_status\<close>, \<^verbatim>\<open>update_user_role\<close> and \<^verbatim>\<open>update_last_login\<close>. The
  role of \<^verbatim>\<open>create_user\<close> is always passed here; Python's default for it is
  \<^verbatim>\<open>'viewer'\<close>.
\<close>

fun join :: "string \<Rightarrow> string list \<Rightarrow> string" where
  "join sep [] = []"
| "join sep [x] = x"
| "join sep (x # y # ys) = x @ sep @ join sep (y # ys)"

text \<open>The message of the \<^verbatim>\<open>ValueError\<close> for a role outside the registry: a fixed
  text (its accented letter as the bytes C3 A1) followed by \<^verbatim>\<open>', '.join(ROLES.keys())\<close>.\<close>

definition invalid_role_message :: string where
  "invalid_role_message =
     ''Rol inv'' @ [CHR 0xC3, CHR 0xA1] @ ''lido. Debe ser uno de: '' @ join '', '' ROLES_keys"

definition create_user ::
  "(string \<Rightarrow> string) \<Rightarrow> nat \<Rightarrow> string \<Rightarrow> string \<Rightarrow> string \<Rightarrow> string \<Rightarrow> database
     \<Rightarrow> (error + int) \<times> database" where
  "create_user generate_password_hash now uname mail password role' db =
     (if \<not> in_ROLES role' then (Inl (ValueError invalid_role_message), db)
      else
        let pw_hash = generate_password_hash password;
            conn = get_db_connection db
        in case execute_insert uname mail pw_hash role' now conn of
             Inr (new_id, conn') \<Rightarrow> (Inr new_id, close (commit conn'))
           | Inl IntegrityError \<Rightarrow>
               (Inl (ValueError ''El username o email ya existe''), close (rollback conn)))"

definition toggle_user_status :: "int \<Rightarrow> database \<Rightarrow> unit \<times> database" where
  "toggle_user_status uid db =
     (let conn = get_db_connection db;
          conn = execute_update (\<lambda>r. row_id r = uid) (\<lambda>r. r\<lparr>activo := \<not> activo r\<rparr>) conn;
          conn = commit conn
      in ((), close conn))"

definition update_user_role :: "int \<Rightarrow> string \<Rightarrow> database \<Rightarrow> (error + unit) \<times> database" where
  "update_user_role uid new_role db =
     (if \<not> in_ROLES new_role then (Inl (ValueError invalid_role_message), db)
      else
        let conn = get_db_connection db;
            conn = execute_update (\<lambda>r. row_id r = uid) (\<lambda>r. r\<lparr>row_role := new_role\<rparr>) conn;
            conn = commit conn
        in (Inr (), close conn))"

definition update_last_login :: "nat \<Rightarrow> int \<Rightarrow> database \<Rightarrow> unit \<times> database" where
  "update_last_login now uid db =
     (let conn = get_db_connection db;
          conn = execute_update (\<lambda>r. row_id r = uid) (\<lambda>r. r\<lparr>last_login := Some now\<rparr>) conn;
          conn = commit conn
      in ((), close conn))"

subsection \<open>The authorization decorators\<close>

text \<open>
  What a decorated view gives back: the value of the protected operation, the redirect
  to an endpoint after one flashed message (text and category), or the answer of
  \<^verbatim>\<open>login_required\<close> when nobody is logged in. \<^verbatim>\<open>current_user\<close> is \<open>None\<close> for
  the anonymous user and \<open>Some u\<close> for an authenticated principal.
\<close>

datatype 'r response =
    Returned 'r
  | Redirected "string \<times> string" string
  | Unauthorized

text \<open>U+26D4, the sign that opens both denial messages.\<close>

definition no_entry :: string where
  "no_entry = [CHR 0xE2, CHR 0x9B, CHR 0x94]"

definition permission_denied_message :: "string \<Rightarrow> string" where
  "permission_denied_message permission =
     no_entry @ '' No tienes permiso para realizar esta acci'' @ [CHR 0xC3, CHR 0xB3]
       @ ''n. Se requiere: '' @ permission"

definition role_denied_message :: "string \<Rightarrow> string" where
  "role_denied_message role_name = no_entry @ '' Se requiere rol de '' @ role_name"

definition permission_required ::
  "string \<Rightarrow> ('a \<Rightarrow> 'r) \<Rightarrow> user option \<Rightarrow> 'a \<Rightarrow> 'r response" where
  "permission_required permission f current_user args =
     (case current_user of
        None \<Rightarrow> Unauthorized
      | Some u \<Rightarrow>
          if \<not> has_permission u permission
          then Redirected (permission_denied_message permission, ''error'') ''index''
          else Returned (f args))"

text \<open>\<^verbatim>\<open>ROLES[role]["name"]\<close> is a direct index: a missing key raises \<^verbatim>\<open>KeyError\<close>
  while the message is built, before \<^verbatim>\<open>flash\<close> and \<^verbatim>\<open>redirect\<close> run.\<close>

definition role_required ::
  "string \<Rightarrow> ('a \<Rightarrow> 'r) \<Rightarrow> user option \<Rightarrow> 'a \<Rightarrow> error + 'r response" where
  "role_required role' f current_user args =
     (case current_user of
        None \<Rightarrow> Inr Unauthorized
      | Some u \<Rightarrow>
          if role u \<noteq> role' \<and> role u \<noteq> ''admin''
          then (case map_of ROLES role' of
                  None \<Rightarrow> Inl (KeyError role')
                | Some info \<Rightarrow>
                    Inr (Redirected (role_denied_message (name info), ''error'') ''index''))
          else Inr (Returned (f args)))"

subsection \<open>Concrete instances\<close>

text \<open>A transparent stand-in for the hashing library, used where a theorem is run on a
  concrete input: the hash of a password is the password behind a fixed tag, and
  verification compares.\<close>

definition tagged_hash :: "string \<Rightarrow> string" where
  "tagged_hash password = ''plain$'' @ password"

definition tagged_check :: "string \<Rightarrow> string \<Rightarrow> bool" where
  "tagged_check pwhash password = (pwhash = ''plain$'' @ password)"

definition empty_db :: database where
  "empty_db = \<lparr>usuarios = [], usuarios_id_seq = 1\<rparr>"

definition row_one :: usuario where
  "row_one =
     \<lparr>row_id = 1, row_username = ''bob@x.com'', row_email = ''a@x.com'',
      password_hash = ''plain$pw'', row_role = ''viewer'', activo = True, created_at = 10,
      last_login = None\<rparr>"

definition row_two :: usuario where
  "row_two =
     \<lparr>row_id = 2, row_username = ''bob'', row_email = ''bob@x.com'',
      password_hash = ''plain$pw'', row_role = ''editor'', activo = True, created_at = 20,
      last_login = None\<rparr>"

text \<open>Two registrations on the empty database, which store \<open>row_one\<close> and then
  \<open>row_two\<close>: the username of the first is the email of the second.\<close>

definition db_one :: database where
  "db_one = snd (create_user tagged_hash 10 ''bob@x.com'' ''a@x.com'' ''pw'' ''viewer'' empty_db)"

definition db_two :: database where
  "db_two = snd (create_user tagged_hash 20 ''bob'' ''bob@x.com'' ''pw'' ''editor'' db_one)"

text \<open>The first of the two is then deactivated.\<close>

definition db_three :: database where
  "db_three = snd (toggle_user_status 1 db_two)"

text \<open>The scenario of the specification: alice registers as a viewer, here after the
  first registration above.\<close>

definition db_alice :: database where
  "db_alice = snd (create_user tagged_hash 30 ''alice'' ''alice@x.com'' ''pw1'' ''viewer'' db_one)"

definition alice :: user where
  "alice = \<lparr>user_id = 2, username = ''alice'', email = ''alice@x.com'', role = ''viewer''\<rparr>"

definition ana :: user where
  "ana = \<lparr>user_id = 5, username = ''ana'', email = ''ana@x.com'', role = ''editor''\<rparr>"

definition root :: user where
  "root = \<lparr>user_id = 9, username = ''root'', email = ''root@x.com'', role = ''admin''\<rparr>"

section \<open>Properties of the role registry\<close>

lemma map_of_ROLES_None: "(map_of ROLES r = None) = (r \<notin> set ROLES_keys)"
  by (simp add: ROLES_keys_def map_of_eq_None_iff)

lemma in_ROLES_keys: "in_ROLES r = (r \<in> set ROLES_keys)"
  by (simp add: in_ROLES_def map_of_ROLES_None)

lemma ROLES_keys_eq: "ROLES_keys = [''viewer'', ''editor_v2'', ''editor'', ''admin'']"
  by (simp add: ROLES_keys_def ROLES_def)

lemma has_permission_role_permissions:
  "has_permission u q = (q \<in> role_permissions (role u))"
  by (simp add: has_permission_def role_permissions_def)

lemma role_permissions_viewer: "role_permissions ''viewer'' = {''view''}"
  by (simp add: role_permissions_def ROLES_def)

lemma role_permissions_editor_v2: "role_permissions ''editor_v2'' = {''view'', ''edit''}"
  by (simp add: role_permissions_def ROLES_def)

lemma role_permissions_editor: "role_permissions ''editor'' = {''view'', ''edit'', ''delete''}"
  by (simp add: role_permissions_def ROLES_def)

lemma role_permissions_admin:
  "role_permissions ''admin'' = {''view'', ''edit'', ''delete'', ''manage_users'', ''view_audit''}"
  by (simp add: role_permissions_def ROLES_def)

lemma role_permissions_unknown: "r \<notin> set ROLES_keys \<Longrightarrow> role_permissions r = {}"
  by (simp add: role_permissions_def map_of_ROLES_None [symmetric])

lemma viewer_psubset: "role_permissions ''viewer'' \<subset> role_permissions ''editor_v2''"
proof -
  have "''edit'' \<in> role_permissions ''editor_v2''" "''edit'' \<notin> role_permissions ''viewer''"
    by (simp_all add: role_permissions_viewer role_permissions_editor_v2)
  moreover have "role_permissions ''viewer'' \<subseteq> role_permissions ''editor_v2''"
    by (simp add: role_permissions_viewer role_permissions_editor_v2)
  ultimately show ?thesis by blast
qed

lemma editor_v2_psubset: "role_permissions ''editor_v2'' \<subset> role_permissions ''editor''"
proof -
  have "''delete'' \<in> role_permissions ''editor''" "''delete'' \<notin> role_permissions ''editor_v2''"
    by (simp_all add: role_permissions_editor role_permissions_editor_v2)
  moreover have "role_permissions ''editor_v2'' \<subseteq> role_permissions ''editor''"
    by (simp add: role_permissions_editor role_permissions_editor_v2)
  ultimately show ?thesis by blast
qed

lemma editor_psubset: "role_permissions ''editor'' \<subset> role_permissions ''admin''"
proof -
  have "''view_audit'' \<in> role_permissions ''admin''"
    "''view_audit'' \<notin> role_permissions ''editor''"
    by (simp_all add: role_permissions_editor role_permissions_admin)
  moreover have "role_permissions ''editor'' \<subseteq> role_permissions ''admin''"
    by (simp add: role_permissions_editor role_permissions_admin)
  ultimately show ?thesis by blast
qed

lemma role_permissions_nonempty:
  "role_permissions ''viewer'' \<noteq> {}" "role_permissions ''editor_v2'' \<noteq> {}"
  "role_permissions ''editor'' \<noteq> {}" "role_permissions ''admin'' \<noteq> {}"
  by (simp_all add: role_permissions_viewer role_permissions_editor_v2
      role_permissions_editor role_permissions_admin)

text \<open>
  Claim C4. A user whose role is not a key of the registry has no permission at all:
  \<open>has_permission\<close> is false for every permission token, the permission set of the role is
  empty, and \<open>get_role_name\<close> gives the sentinel \<^verbatim>\<open>Desconocido\<close>. Both lookups are
  total: neither has an error result.
\<close>

theorem unknown_role_fails_closed:
  assumes "r \<notin> set ROLES_keys" and "role u = r"
  shows "\<not> has_permission u q \<and> role_permissions r = {} \<and> get_role_name u = ''Desconocido''"
  using assms
  by (simp add: has_permission_role_permissions role_permissions_unknown get_role_name_def
      map_of_ROLES_None [symmetric])

theorem unknown_role_fails_closed_witness:
  "''manager'' \<notin> set ROLES_keys
   \<and> \<not> has_permission
         \<lparr>user_id = 7, username = ''eve'', email = ''eve@x.com'', role = ''manager''\<rparr> ''view''
   \<and> role_permissions ''manager'' = {}
   \<and> get_role_name \<lparr>user_id = 7, username = ''eve'', email = ''eve@x.com'', role = ''manager''\<rparr>
       = ''Desconocido''"
proof -
  have h: "''manager'' \<notin> set ROLES_keys" by (simp add: ROLES_keys_eq)
  show ?thesis
    using h unknown_role_fails_closed [OF h,
        of "\<lparr>user_id = 7, username = ''eve'', email = ''eve@x.com'', role = ''manager''\<rparr>"
          "''view''"]
    by simp
qed

text \<open>
  Claim C5. The registry holds exactly the four roles viewer, editor_v2, editor and admin;
  the permission set of each is strictly contained in that of the next along this chain,
  and none of the four is empty.
\<close>

theorem ROLES_chain:
  "ROLES_keys = [''viewer'', ''editor_v2'', ''editor'', ''admin'']
   \<and> role_permissions ''viewer'' \<subset> role_permissions ''editor_v2''
   \<and> role_permissions ''editor_v2'' \<subset> role_permissions ''editor''
   \<and> role_permissions ''editor'' \<subset> role_permissions ''admin''
   \<and> role_permissions ''viewer'' \<noteq> {} \<and> role_permissions ''editor_v2'' \<noteq> {}
   \<and> role_permissions ''editor'' \<noteq> {} \<and> role_permissions ''admin'' \<noteq> {}"
  using ROLES_keys_eq viewer_psubset editor_v2_psubset editor_psubset role_permissions_nonempty
  by blast

section \<open>Properties of the authorization decorators\<close>

lemma role_required_allowed:
  "role p = r \<or> role p = ''admin'' \<Longrightarrow> role_required r f (Some p) a = Inr (Returned (f a))"
  by (auto simp add: role_required_def)

lemma role_required_denied:
  "role p \<noteq> r \<Longrightarrow> role p \<noteq> ''admin'' \<Longrightarrow>
   role_required r f (Some p) a =
     (case map_of ROLES r of
        None \<Rightarrow> Inl (KeyError r)
      | Some info \<Rightarrow> Inr (Redirected (role_denied_message (name info), ''error'') ''index''))"
  by (simp add: role_required_def)

lemma permission_denied_message_carries:
  "drop (length (permission_denied_message [])) (permission_denied_message q) = q"
  by (simp add: permission_denied_message_def)

text \<open>
  Claim C3. For an authenticated principal \<open>p\<close>, the view wrapped by
  \<open>permission_required q\<close> returns the value of the protected operation unchanged when
  \<open>q\<close> is among the permissions of \<open>p\<close>'s role; otherwise the operation is not run and
  the answer is the redirect to the index with the flashed denial, whose text ends in the
  missing permission \<open>q\<close>. A viewer is denied \<^verbatim>\<open>delete\<close>, an editor is allowed it.
\<close>

theorem permission_required_guard:
  "(q \<in> role_permissions (role p) \<longrightarrow> permission_required q f (Some p) a = Returned (f a))
   \<and> (q \<notin> role_permissions (role p) \<longrightarrow>
        permission_required q f (Some p) a =
          Redirected (permission_denied_message q, ''error'') ''index''
        \<and> drop (length (permission_denied_message [])) (permission_denied_message q) = q)
   \<and> (role p = ''viewer'' \<longrightarrow>
        permission_required ''delete'' f (Some p) a =
          Redirected (permission_denied_message ''delete'', ''error'') ''index'')
   \<and> (role p = ''editor'' \<longrightarrow> permission_required ''delete'' f (Some p) a = Returned (f a))"
  by (simp add: permission_required_def has_permission_role_permissions
      permission_denied_message_carries role_permissions_viewer role_permissions_editor)

theorem permission_required_guard_witness:
  "''delete'' \<notin> role_permissions (role alice)
   \<and> permission_required ''delete'' length (Some alice) ''abc''
       = Redirected (permission_denied_message ''delete'', ''error'') ''index''
   \<and> ''delete'' \<in> role_permissions (role ana)
   \<and> permission_required ''delete'' length (Some ana) ''abc'' = Returned 3
   \<and> permission_required ''manage_users'' length (Some alice) ''abc''
       = Redirected (permission_denied_message ''manage_users'', ''error'') ''index''"
proof -
  have a: "role alice = ''viewer''" "role ana = ''editor''"
    by (simp_all add: alice_def ana_def)
  have d: "''delete'' \<notin> role_permissions ''viewer''" "''delete'' \<in> role_permissions ''editor''"
    "''manage_users'' \<notin> role_permissions ''viewer''"
    by (simp_all add: role_permissions_viewer role_permissions_editor)
  show ?thesis
    using a d
      permission_required_guard [of "''delete''" alice length "''abc''"]
      permission_required_guard [of "''delete''" ana length "''abc''"]
      permission_required_guard [of "''manage_users''" alice length "''abc''"]
    by simp
qed

text \<open>
  Claim C2, as stated, promises the redirect with the required role's display name for
  every role identifier. It fails for an identifier outside the registry: a viewer meeting
  \<open>role_required ''manager''\<close> gets neither the operation nor a redirect, but the
  \<^verbatim>\<open>KeyError\<close> of the direct index.
\<close>

theorem role_required_unknown_role_not_redirected:
  "role alice \<noteq> ''manager'' \<and> role alice \<noteq> ''admin''
   \<and> role_required ''manager'' length (Some alice) ''abc'' = Inl (KeyError ''manager'')"
  by (simp add: role_required_def alice_def ROLES_def)

text \<open>
  Claim C2, amended. For every role identifier \<open>r\<close> and authenticated principal \<open>p\<close>,
  the view wrapped by \<open>role_required r\<close> runs the protected operation if and only if the
  role of \<open>p\<close> is \<open>r\<close> or \<^verbatim>\<open>admin\<close>; an admin passes for every \<open>r\<close>. When \<open>r\<close> is a
  key of the registry and the principal is not allowed, the operation is not run and the
  answer is the redirect to the index with the flashed denial citing the display name of
  \<open>r\<close>.
\<close>

theorem role_required_guard:
  "((\<exists>v. role_required r f (Some p) a = Inr (Returned v)) = (role p = r \<or> role p = ''admin''))
   \<and> (role p = r \<or> role p = ''admin'' \<longrightarrow> role_required r f (Some p) a = Inr (Returned (f a)))
   \<and> (role p \<noteq> r \<and> role p \<noteq> ''admin'' \<and> map_of ROLES r = Some info \<longrightarrow>
        role_required r f (Some p) a =
          Inr (Redirected (role_denied_message (name info), ''error'') ''index''))"
proof (cases "role p = r \<or> role p = ''admin''")
  case True
  then show ?thesis using role_required_allowed [of p r f a] by auto
next
  case False
  then have "role_required r f (Some p) a =
     (case map_of ROLES r of
        None \<Rightarrow> Inl (KeyError r)
      | Some info \<Rightarrow> Inr (Redirected (role_denied_message (name info), ''error'') ''index''))"
    by (simp add: role_required_denied)
  with False show ?thesis by (auto split: option.splits)
qed

theorem role_required_guard_witness:
  "role alice \<noteq> ''editor'' \<and> role alice \<noteq> ''admin''
   \<and> map_of ROLES ''editor''
       = Some \<lparr>name = ''Editor Full'', permissions = [''view'', ''edit'', ''delete'']\<rparr>
   \<and> role_required ''editor'' length (Some alice) ''abc''
       = Inr (Redirected (role_denied_message ''Editor Full'', ''error'') ''index'')
   \<and> role_required ''editor'' length (Some ana) ''abc'' = Inr (Returned 3)
   \<and> role_required ''editor'' length (Some root) ''abc'' = Inr (Returned 3)
   \<and> role_required ''manager'' length (Some root) ''abc'' = Inr (Returned 3)"
proof -
  have a: "role alice \<noteq> ''editor'' \<and> role alice \<noteq> ''admin''"
    by (simp add: alice_def)
  have e: "map_of ROLES ''editor''
       = Some \<lparr>name = ''Editor Full'', permissions = [''view'', ''edit'', ''delete'']\<rparr>"
    by (simp add: ROLES_def)
  have r: "role ana = ''editor''" "role root = ''admin''"
    by (simp_all add: ana_def root_def)
  show ?thesis
    using a e r
      role_required_guard [of "''editor''" length alice "''abc''"
        "\<lparr>name = ''Editor Full'', permissions = [''view'', ''edit'', ''delete'']\<rparr>"]
      role_required_guard [of "''editor''" length ana "''abc''"]
      role_required_guard [of "''editor''" length root "''abc''"]
      role_required_guard [of "''manager''" length root "''abc''"]
    by simp
qed

text \<open>
  Claim C10. For a role identifier \<open>r\<close> that is not a key of the registry, the view
  wrapped by \<open>role_required r\<close> raises \<^verbatim>\<open>KeyError\<close> for an authenticated principal whose
  role is neither \<open>r\<close> nor \<^verbatim>\<open>admin\<close>: the denial message indexes the registry
  directly, so the redirect is never reached. A principal whose role is \<^verbatim>\<open>admin\<close> or
  \<open>r\<close> itself passes, since the registry is not consulted for it.
\<close>

theorem role_required_unknown_role_KeyError:
  assumes "r \<notin> set ROLES_keys"
  shows "(role p \<noteq> r \<and> role p \<noteq> ''admin'' \<longrightarrow> role_required r f (Some p) a = Inl (KeyError r))
       \<and> (role p = r \<or> role p = ''admin'' \<longrightarrow> role_required r f (Some p) a = Inr (Returned (f a)))"
  using assms role_required_allowed [of p r f a] role_required_denied [of p r f a]
  by (auto simp add: map_of_ROLES_None [symmetric])

theorem role_required_unknown_role_KeyError_witness:
  "''auditor'' \<notin> set ROLES_keys
   \<and> role_required ''auditor'' length (Some ana) ''abc'' = Inl (KeyError ''auditor'')
   \<and> role_required ''auditor'' length (Some root) ''abc'' = Inr (Returned 3)"
proof -
  have h: "''auditor'' \<notin> set ROLES_keys" by (simp add: ROLES_keys_eq)
  have r: "role ana \<noteq> ''auditor'' \<and> role ana \<noteq> ''admin''" "role root = ''admin''"
    by (simp_all add: ana_def root_def)
  show ?thesis
    using h r
      role_required_unknown_role_KeyError [OF h, of ana length "''abc''"]
      role_required_unknown_role_KeyError [OF h, of root length "''abc''"]
    by simp
qed

section \<open>Properties of the operations on the database\<close>

lemma authenticate_user_fst:
  "fst (authenticate_user chk i pw db) =
     (case active_matches i db of
        [] \<Rightarrow> None
      | d # _ \<Rightarrow> if chk (password_hash d) pw then Some (User d) else None)"
  by (simp add: authenticate_user_def active_matches_def execute_select_def fetchone_def
      get_db_connection_def Let_def split: list.splits)

lemma authenticate_user_snd: "snd (authenticate_user chk i pw db) = db"
  by (simp add: authenticate_user_def get_db_connection_def close_def Let_def)

lemma authenticate_user_Some:
  assumes "fst (authenticate_user chk i pw db) = Some u"
  shows "\<exists>d \<in> set (usuarios db). activo d \<and> (row_username d = i \<or> row_email d = i)
           \<and> chk (password_hash d) pw \<and> u = User d"
proof (cases "active_matches i db")
  case Nil
  with assms show ?thesis by (simp add: authenticate_user_fst)
next
  case (Cons d ds)
  then have "d \<in> set (active_matches i db)" by simp
  then have "d \<in> set (usuarios db)" "activo d" "row_username d = i \<or> row_email d = i"
    by (simp_all add: active_matches_def)
  moreover have "chk (password_hash d) pw \<and> u = User d"
    using assms Cons by (simp add: authenticate_user_fst split: if_splits)
  ultimately show ?thesis by blast
qed

lemma load_user_fst:
  "fst (load_user uid db) =
     map_option User (fetchone (filter (\<lambda>r. row_id r = uid) (usuarios db)))"
  by (simp add: load_user_def execute_select_def get_db_connection_def Let_def
      split: option.splits)

lemma create_user_Inr:
  assumes "create_user gen now u e p r db = (Inr new_id, db')"
  shows "in_ROLES r \<and> new_id = usuarios_id_seq db
       \<and> \<not> list_ex (\<lambda>rw. row_username rw = u \<or> row_email rw = e \<or> row_id rw = new_id)
             (usuarios db)
       \<and> usuarios db' = usuarios db @
           [\<lparr>row_id = new_id, row_username = u, row_email = e, password_hash = gen p,
             row_role = r, activo = True, created_at = now, last_login = None\<rparr>]"
  using assms
  by (auto simp add: create_user_def execute_insert_def get_db_connection_def commit_def
      close_def rollback_def Let_def split: if_splits)

lemma update_last_login_eq:
  "update_last_login now uid db =
     ((), db\<lparr>usuarios :=
        map (\<lambda>rw. if row_id rw = uid then rw\<lparr>last_login := Some now\<rparr> else rw) (usuarios db)\<rparr>)"
  by (simp add: update_last_login_def execute_update_def get_db_connection_def commit_def
      close_def Let_def)

lemma toggle_user_status_eq:
  "toggle_user_status uid db =
     ((), db\<lparr>usuarios :=
        map (\<lambda>rw. if row_id rw = uid then rw\<lparr>activo := \<not> activo rw\<rparr> else rw) (usuarios db)\<rparr>)"
  by (simp add: toggle_user_status_def execute_update_def get_db_connection_def commit_def
      close_def Let_def)

lemma invalid_role_message_eq:
  "invalid_role_message =
     ''Rol inv'' @ [CHR 0xC3, CHR 0xA1]
       @ ''lido. Debe ser uno de: viewer, editor_v2, editor, admin''"
  by (simp add: invalid_role_message_def ROLES_keys_eq)

subsection \<open>The concrete databases\<close>

lemma db_one_rows: "db_one = \<lparr>usuarios = [row_one], usuarios_id_seq = 2\<rparr>"
  by (simp add: db_one_def create_user_def in_ROLES_keys ROLES_keys_eq execute_insert_def
      get_db_connection_def commit_def close_def empty_db_def tagged_hash_def row_one_def)

lemma db_two_rows: "db_two = \<lparr>usuarios = [row_one, row_two], usuarios_id_seq = 3\<rparr>"
  by (simp add: db_two_def db_one_rows create_user_def in_ROLES_keys ROLES_keys_eq
      execute_insert_def get_db_connection_def commit_def close_def tagged_hash_def
      row_one_def row_two_def)

lemma db_three_rows:
  "db_three = \<lparr>usuarios = [row_one\<lparr>activo := False\<rparr>, row_two], usuarios_id_seq = 3\<rparr>"
  by (simp add: db_three_def toggle_user_status_eq db_two_rows row_one_def row_two_def)

lemma create_alice:
  "create_user tagged_hash 30 ''alice'' ''alice@x.com'' ''pw1'' ''viewer'' db_one
     = (Inr 2, db_alice)"
  by (simp add: db_alice_def db_one_rows create_user_def in_ROLES_keys ROLES_keys_eq
      execute_insert_def get_db_connection_def commit_def close_def tagged_hash_def row_one_def)

subsection \<open>Authentication\<close>

text \<open>
  Claim C1, as stated, makes authentication fail when several active records match the
  identifier. After two registrations that the uniqueness constraints accept, the
  identifier \<^verbatim>\<open>bob@x.com\<close> is the username of one active record and the email of
  another; \<open>authenticate_user\<close> then returns the principal of whichever record the
  database yields first, in either order of the two rows.
\<close>

theorem authenticate_user_two_active_matches:
  "fst (create_user tagged_hash 10 ''bob@x.com'' ''a@x.com'' ''pw'' ''viewer'' empty_db) = Inr 1
   \<and> fst (create_user tagged_hash 20 ''bob'' ''bob@x.com'' ''pw'' ''editor'' db_one) = Inr 2
   \<and> length (active_matches ''bob@x.com'' db_two) = 2
   \<and> fst (authenticate_user tagged_check ''bob@x.com'' ''pw'' db_two)
       = Some \<lparr>user_id = 1, username = ''bob@x.com'', email = ''a@x.com'', role = ''viewer''\<rparr>
   \<and> fst (authenticate_user tagged_check ''bob@x.com'' ''pw''
          (db_two\<lparr>usuarios := rev (usuarios db_two)\<rparr>))
       = Some \<lparr>user_id = 2, username = ''bob'', email = ''bob@x.com'', role = ''editor''\<rparr>"
proof -
  have "fst (create_user tagged_hash 10 ''bob@x.com'' ''a@x.com'' ''pw'' ''viewer'' empty_db)
          = Inr 1"
    by (simp add: create_user_def in_ROLES_keys ROLES_keys_eq execute_insert_def
        get_db_connection_def empty_db_def)
  moreover have
    "fst (create_user tagged_hash 20 ''bob'' ''bob@x.com'' ''pw'' ''editor'' db_one) = Inr 2"
    by (simp add: create_user_def in_ROLES_keys ROLES_keys_eq execute_insert_def
        get_db_connection_def db_one_rows row_one_def)
  ultimately show ?thesis
    by (simp add: authenticate_user_fst active_matches_def db_two_rows tagged_check_def
        User_def row_one_def row_two_def)
qed

text \<open>
  Claim C1, amended. \<open>authenticate_user\<close> returns a principal if and only if at least one
  active record has username or email equal to the identifier (exact match) and the
  password verifies against the stored hash of the first such record the database yields;
  the principal is then that record's. With exactly one active match this is the record
  itself. With no active match, whether no record matches or every matching record is
  inactive, the result is \<open>None\<close>, as it is on a wrong password: the caller sees no
  reason.
\<close>

theorem authenticate_user_first_match:
  "(fst (authenticate_user chk i pw db) \<noteq> None) =
      (active_matches i db \<noteq> [] \<and> chk (password_hash (hd (active_matches i db))) pw)
   \<and> (active_matches i db = d # ds \<and> chk (password_hash d) pw \<longrightarrow>
        fst (authenticate_user chk i pw db) = Some (User d))
   \<and> (active_matches i db = [] \<longrightarrow> fst (authenticate_user chk i pw db) = None)
   \<and> ((\<forall>r \<in> set (usuarios db). row_username r = i \<or> row_email r = i \<longrightarrow> \<not> activo r) \<longrightarrow>
        fst (authenticate_user chk i pw db) = None)"
proof -
  have inactive: "active_matches i db = []"
    if "\<forall>r \<in> set (usuarios db). row_username r = i \<or> row_email r = i \<longrightarrow> \<not> activo r"
    using that by (auto simp add: active_matches_def filter_empty_conv)
  show ?thesis
    using inactive by (auto simp add: authenticate_user_fst split: list.splits)
qed

theorem authenticate_user_first_match_witness:
  "active_matches ''bob'' db_two = [row_two]
   \<and> tagged_check (password_hash row_two) ''pw''
   \<and> fst (authenticate_user tagged_check ''bob'' ''pw'' db_two) = Some (User row_two)
   \<and> active_matches ''nobody'' db_two = []
   \<and> fst (authenticate_user tagged_check ''nobody'' ''pw'' db_two) = None
   \<and> usuarios db_three = [row_one\<lparr>activo := False\<rparr>, row_two]
   \<and> fst (authenticate_user tagged_check ''a@x.com'' ''pw'' db_three) = None"
proof -
  have m: "active_matches ''bob'' db_two = [row_two]"
    by (simp add: active_matches_def db_two_rows row_one_def row_two_def)
  have c: "tagged_check (password_hash row_two) ''pw''"
    by (simp add: tagged_check_def row_two_def)
  have n: "active_matches ''nobody'' db_two = []"
    by (simp add: active_matches_def db_two_rows row_one_def row_two_def)
  have i: "\<forall>r \<in> set (usuarios db_three).
         row_username r = ''a@x.com'' \<or> row_email r = ''a@x.com'' \<longrightarrow> \<not> activo r"
    by (simp add: db_three_rows row_one_def row_two_def)
  have t: "usuarios db_three = [row_one\<lparr>activo := False\<rparr>, row_two]"
    by (simp add: db_three_rows)
  show ?thesis
    using m c n i t
      authenticate_user_first_match [of tagged_check "''bob''" "''pw''" db_two row_two "[]"]
      authenticate_user_first_match [of tagged_check "''nobody''" "''pw''" db_two]
      authenticate_user_first_match [of tagged_check "''a@x.com''" "''pw''" db_three]
    by simp
qed

text \<open>
  Claim C8. \<open>authenticate_user\<close> leaves the database exactly as it found it, the
  \<open>last_login\<close> of every row included; stamping \<open>last_login\<close> is what the separate
  operation \<open>update_last_login\<close> does. The principal it returns is made of the id,
  username, email and role of a stored row and of nothing else: it does not depend on
  the row's password hash.
\<close>

theorem authenticate_user_read_only:
  "snd (authenticate_user chk i pw db) = db
   \<and> (fst (authenticate_user chk i pw db) = Some u \<longrightarrow>
        (\<exists>d \<in> set (usuarios db).
           u = \<lparr>user_id = row_id d, username = row_username d, email = row_email d,
                role = row_role d\<rparr>))
   \<and> User (d\<lparr>password_hash := h\<rparr>) = User d
   \<and> snd (update_last_login now uid db) =
       db\<lparr>usuarios :=
         map (\<lambda>rw. if row_id rw = uid then rw\<lparr>last_login := Some now\<rparr> else rw) (usuarios db)\<rparr>"
proof -
  have "\<exists>d \<in> set (usuarios db).
           u = \<lparr>user_id = row_id d, username = row_username d, email = row_email d,
                role = row_role d\<rparr>"
    if "fst (authenticate_user chk i pw db) = Some u"
    using authenticate_user_Some [OF that] by (auto simp add: User_def)
  then show ?thesis
    by (simp add: authenticate_user_snd update_last_login_eq User_def)
qed

theorem authenticate_user_read_only_witness:
  "fst (authenticate_user tagged_check ''bob'' ''pw'' db_two) = Some (User row_two)
   \<and> snd (authenticate_user tagged_check ''bob'' ''pw'' db_two) = db_two
   \<and> User (row_two\<lparr>password_hash := ''x''\<rparr>) = User row_two
   \<and> snd (update_last_login 40 2 db_two)
       = \<lparr>usuarios = [row_one, row_two\<lparr>last_login := Some 40\<rparr>], usuarios_id_seq = 3\<rparr>"
proof -
  have a: "fst (authenticate_user tagged_check ''bob'' ''pw'' db_two) = Some (User row_two)"
    by (simp add: authenticate_user_fst active_matches_def db_two_rows row_one_def row_two_def
        tagged_check_def)
  have m: "db_two\<lparr>usuarios :=
         map (\<lambda>rw. if row_id rw = 2 then rw\<lparr>last_login := Some 40\<rparr> else rw) (usuarios db_two)\<rparr>
       = \<lparr>usuarios = [row_one, row_two\<lparr>last_login := Some 40\<rparr>], usuarios_id_seq = 3\<rparr>"
    by (simp add: db_two_rows row_one_def row_two_def)
  show ?thesis
    using a m
      authenticate_user_read_only [where chk = tagged_check and i = "''bob''" and pw = "''pw''"
        and db = db_two and u = "User row_two" and d = row_two and h = "''x''"
        and now = 40 and uid = 2]
    by simp
qed

subsection \<open>Registration followed by authentication\<close>

lemma active_matches_after_create:
  assumes fresh: "\<forall>d \<in> set (usuarios db). row_username d \<notin> {u, e} \<and> row_email d \<notin> {u, e}"
      and rows: "usuarios db' = usuarios db @ [nw]"
      and nw: "row_username nw = u" "row_email nw = e" "activo nw"
  shows "active_matches u db' = [nw] \<and> active_matches e db' = [nw]"
proof -
  have "filter (\<lambda>r. (row_username r = u \<or> row_email r = u) \<and> activo r) (usuarios db) = []"
    using fresh by (auto simp add: filter_empty_conv)
  moreover
  have "filter (\<lambda>r. (row_username r = e \<or> row_email r = e) \<and> activo r) (usuarios db) = []"
    using fresh by (auto simp add: filter_empty_conv)
  ultimately show ?thesis
    using rows nw by (simp add: active_matches_def)
qed

text \<open>
  Claim C6. Let the hashing library verify a password against the hash generated for
  \<open>p\<close> exactly when the password is \<open>p\<close>. If \<open>create_user\<close> with username \<open>u\<close>, email
  \<open>e\<close>, password \<open>p\<close> and role \<open>r\<close> succeeds on a database in which no record has \<open>u\<close>
  or \<open>e\<close> as its username or email, then \<open>authenticate_user\<close> with \<open>u\<close> and \<open>p\<close>, and
  with \<open>e\<close> and \<open>p\<close>, returns the principal with the new id, \<open>u\<close>, \<open>e\<close> and \<open>r\<close>, and
  with \<open>u\<close> and any other password it returns \<open>None\<close>.
\<close>

theorem create_then_authenticate:
  assumes hash: "\<forall>p'. chk (gen p) p' = (p' = p)"
      and created: "create_user gen now u e p r db = (Inr new_id, db')"
      and fresh: "\<forall>d \<in> set (usuarios db). row_username d \<notin> {u, e} \<and> row_email d \<notin> {u, e}"
  shows "fst (authenticate_user chk u p db')
           = Some \<lparr>user_id = new_id, username = u, email = e, role = r\<rparr>
       \<and> fst (authenticate_user chk e p db')
           = Some \<lparr>user_id = new_id, username = u, email = e, role = r\<rparr>
       \<and> (p' \<noteq> p \<longrightarrow> fst (authenticate_user chk u p' db') = None)"
proof -
  define nw where "nw =
    \<lparr>row_id = new_id, row_username = u, row_email = e, password_hash = gen p,
     row_role = r, activo = True, created_at = now, last_login = None\<rparr>"
  have rows: "usuarios db' = usuarios db @ [nw]"
    using create_user_Inr [OF created] by (simp add: nw_def)
  have m: "active_matches u db' = [nw]" "active_matches e db' = [nw]"
    using active_matches_after_create [OF fresh rows] by (simp_all add: nw_def)
  have usr: "User nw = \<lparr>user_id = new_id, username = u, email = e, role = r\<rparr>"
    by (simp add: User_def nw_def)
  have h: "password_hash nw = gen p" by (simp add: nw_def)
  show ?thesis
    using hash by (simp add: authenticate_user_fst m usr h)
qed

theorem create_then_authenticate_witness:
  "create_user tagged_hash 30 ''alice'' ''alice@x.com'' ''pw1'' ''viewer'' db_one
       = (Inr 2, db_alice)
   \<and> usuarios db_one = [row_one]
   \<and> fst (authenticate_user tagged_check ''alice'' ''pw1'' db_alice) = Some alice
   \<and> fst (authenticate_user tagged_check ''alice@x.com'' ''pw1'' db_alice) = Some alice
   \<and> fst (authenticate_user tagged_check ''alice'' ''wrong'' db_alice) = None"
proof -
  have h: "\<forall>p'. tagged_check (tagged_hash ''pw1'') p' = (p' = ''pw1'')"
    by (auto simp add: tagged_check_def tagged_hash_def)
  have f: "\<forall>d \<in> set (usuarios db_one).
         row_username d \<notin> {''alice'', ''alice@x.com''}
         \<and> row_email d \<notin> {''alice'', ''alice@x.com''}"
    by (simp add: db_one_rows row_one_def)
  have w: "''wrong'' \<noteq> ''pw1''" by simp
  have o: "usuarios db_one = [row_one]" by (simp add: db_one_rows)
  show ?thesis
    using h f w o create_alice
      create_then_authenticate [where chk = tagged_check and gen = tagged_hash
        and p = "''pw1''" and p' = "''wrong''", OF h create_alice f]
    by (simp add: alice_def)
qed

subsection \<open>Changing a role\<close>

text \<open>
  Claim C7. For a role identifier outside the registry, \<open>update_user_role\<close> raises the
  \<^verbatim>\<open>ValueError\<close> whose message lists the valid role identifiers, and the database, the
  user's stored role included, is as before. For a role identifier of the registry it
  sets the role of the row with the given id to it and changes nothing else.
\<close>

theorem update_user_role_validates:
  "(r \<notin> set ROLES_keys \<longrightarrow>
      update_user_role uid r db = (Inl (ValueError invalid_role_message), db))
   \<and> invalid_role_message =
       ''Rol inv'' @ [CHR 0xC3, CHR 0xA1]
         @ ''lido. Debe ser uno de: viewer, editor_v2, editor, admin''
   \<and> (r \<in> set ROLES_keys \<longrightarrow>
        update_user_role uid r db =
          (Inr (), db\<lparr>usuarios :=
             map (\<lambda>rw. if row_id rw = uid then rw\<lparr>row_role := r\<rparr> else rw) (usuarios db)\<rparr>))"
  by (simp add: update_user_role_def in_ROLES_keys invalid_role_message_eq execute_update_def
      get_db_connection_def commit_def close_def Let_def)

theorem update_user_role_validates_witness:
  "''boss'' \<notin> set ROLES_keys
   \<and> update_user_role 1 ''boss'' db_two = (Inl (ValueError invalid_role_message), db_two)
   \<and> ''admin'' \<in> set ROLES_keys
   \<and> update_user_role 1 ''admin'' db_two
       = (Inr (), \<lparr>usuarios = [row_one\<lparr>row_role := ''admin''\<rparr>, row_two], usuarios_id_seq = 3\<rparr>)"
proof -
  have h: "''boss'' \<notin> set ROLES_keys" "''admin'' \<in> set ROLES_keys"
    by (simp_all add: ROLES_keys_eq)
  have m: "db_two\<lparr>usuarios :=
             map (\<lambda>rw. if row_id rw = 1 then rw\<lparr>row_role := ''admin''\<rparr> else rw)
               (usuarios db_two)\<rparr>
           = \<lparr>usuarios = [row_one\<lparr>row_role := ''admin''\<rparr>, row_two], usuarios_id_seq = 3\<rparr>"
    by (simp add: db_two_rows row_one_def row_two_def)
  show ?thesis
    using h m
      update_user_role_validates [of "''boss''" 1 db_two]
      update_user_role_validates [of "''admin''" 1 db_two]
    by simp
qed

subsection \<open>Loading a principal for the session\<close>

lemma filter_distinct_key:
  "distinct (map f xs) \<Longrightarrow> d \<in> set xs \<Longrightarrow> filter (\<lambda>r. f r = f d) xs = [d]"
proof (induction xs)
  case Nil
  then show ?case by simp
next
  case (Cons x xs)
  show ?case
  proof (cases "x = d")
    case True
    have "f d \<notin> f ` set xs"
      using Cons.prems(1) True by simp
    then have "\<forall>r \<in> set xs. f r \<noteq> f d"
      by (metis imageI)
    then have "filter (\<lambda>r. f r = f d) xs = []"
      by (simp add: filter_empty_conv)
    with True show ?thesis by simp
  next
    case False
    with Cons.prems have "d \<in> set xs" "f x \<noteq> f d" by auto
    with Cons show ?thesis by simp
  qed
qed

lemma fetchone_filter_map:
  assumes "\<And>x. row_id (g x) = row_id x" and "\<And>x. User (g x) = User x"
  shows "map_option User (fetchone (filter (\<lambda>r. row_id r = uid) (map g xs))) =
         map_option User (fetchone (filter (\<lambda>r. row_id r = uid) xs))"
  using assms by (induction xs) (simp_all add: fetchone_def)

lemma load_user_after_toggle:
  "fst (load_user uid (snd (toggle_user_status uid' db))) = fst (load_user uid db)"
proof -
  let ?g = "\<lambda>rw. if row_id rw = uid' then rw\<lparr>activo := \<not> activo rw\<rparr> else rw"
  have "map_option User (fetchone (filter (\<lambda>r. row_id r = uid) (map ?g (usuarios db)))) =
        map_option User (fetchone (filter (\<lambda>r. row_id r = uid) (usuarios db)))"
    by (rule fetchone_filter_map) (simp_all add: User_def)
  then show ?thesis by (simp add: load_user_fst toggle_user_status_eq)
qed

text \<open>
  Claim C9. In a database whose ids are unique, \<open>load_user\<close> resolves the id of every
  stored record to a principal with that record's id, username, email and role, whatever
  the record's \<open>activo\<close> flag: toggling the flag does not change what the id resolves
  to. \<open>authenticate_user\<close>, which selects active rows only, never returns the principal
  of an inactive record.
\<close>

theorem load_user_ignores_activo:
  assumes "d \<in> set (usuarios db)" and "distinct (map row_id (usuarios db))"
  shows "fst (load_user (row_id d) db) = Some (User d)
       \<and> role (User d) = row_role d
       \<and> fst (load_user (row_id d) (snd (toggle_user_status (row_id d) db))) = Some (User d)
       \<and> (\<not> activo d \<longrightarrow> fst (authenticate_user chk i pw db) \<noteq> Some (User d))"
proof -
  have l: "fst (load_user (row_id d) db) = Some (User d)"
    using filter_distinct_key [OF assms(2) assms(1)] by (simp add: load_user_fst fetchone_def)
  have "fst (authenticate_user chk i pw db) \<noteq> Some (User d)" if "\<not> activo d"
  proof
    assume "fst (authenticate_user chk i pw db) = Some (User d)"
    then obtain d' where d': "d' \<in> set (usuarios db)" "activo d'" "User d = User d'"
      using authenticate_user_Some by blast
    then have "row_id d' = row_id d" by (simp add: User_def)
    moreover have "inj_on row_id (set (usuarios db))"
      using assms(2) by (simp add: distinct_map)
    ultimately have "d' = d" using d'(1) assms(1) by (auto dest: inj_onD)
    with d'(2) that show False by simp
  qed
  then show ?thesis
    using l by (simp add: load_user_after_toggle User_def)
qed

theorem load_user_ignores_activo_witness:
  "row_one\<lparr>activo := False\<rparr> \<in> set (usuarios db_three)
   \<and> distinct (map row_id (usuarios db_three))
   \<and> \<not> activo (row_one\<lparr>activo := False\<rparr>)
   \<and> fst (load_user 1 db_three)
       = Some \<lparr>user_id = 1, username = ''bob@x.com'', email = ''a@x.com'', role = ''viewer''\<rparr>
   \<and> fst (load_user 1 (snd (toggle_user_status 1 db_three)))
       = Some \<lparr>user_id = 1, username = ''bob@x.com'', email = ''a@x.com'', role = ''viewer''\<rparr>
   \<and> fst (authenticate_user tagged_check ''bob@x.com'' ''pw'' db_three)
       \<noteq> Some \<lparr>user_id = 1, username = ''bob@x.com'', email = ''a@x.com'', role = ''viewer''\<rparr>"
proof -
  have d: "row_one\<lparr>activo := False\<rparr> \<in> set (usuarios db_three)"
    by (simp add: db_three_rows)
  have k: "distinct (map row_id (usuarios db_three))"
    by (simp add: db_three_rows row_one_def row_two_def)
  have u: "User (row_one\<lparr>activo := False\<rparr>)
       = \<lparr>user_id = 1, username = ''bob@x.com'', email = ''a@x.com'', role = ''viewer''\<rparr>"
    "row_id (row_one\<lparr>activo := False\<rparr>) = 1"
    by (simp_all add: User_def row_one_def)
  show ?thesis
    using d k u
      load_user_ignores_activo [OF d k, of tagged_check "''bob@x.com''" "''pw''"]
    by (simp add: row_one_def)
qed

end
